theory Spec2Isabelle
  imports Main
begin

section \<open>ProgressTracker (zero/training.py)\<close>

text \<open>
  The tracker is a small state machine over five private attributes. Scores are Python
  floats; the only things the code does with them are \<open>best_score + min_delta\<close> and
  \<open>score > ...\<close>. The score type is therefore any type with an addition and an order
  symbol, \<open>'a :: {plus, ord}\<close>: these two classes carry no laws at all, so every theorem
  below holds for whatever \<open>+\<close> and \<open><\<close> mean on the score type, rounding, infinities
  and NaN (for which every comparison is false) included. \<open>patience\<close> and
  \<open>bad_counter\<close> are Python integers, hence \<open>int\<close>; \<open>patience\<close> is a number of
  allowed bad updates, which \<open>__init__\<close> does not check. \<open>__init__\<close> stores \<open>float(min_delta)\<close>; here
  \<open>min_delta\<close> is a score already.
\<close>

datatype Status = NEUTRAL | SUCCESS | FAIL

record 'a ProgressTracker =
  patience :: "int option"
  min_delta :: 'a
  best_score :: "'a option"
  status :: Status
  bad_counter :: int

definition init :: "int option \<Rightarrow> 'a \<Rightarrow> 'a ProgressTracker" where
  "init p md =
     \<lparr>patience = p, min_delta = md, best_score = None, status = NEUTRAL, bad_counter = 0\<rparr>"

definition success :: "'a ProgressTracker \<Rightarrow> bool" where
  "success t = (status t = SUCCESS)"

definition fail :: "'a ProgressTracker \<Rightarrow> bool" where
  "fail t = (status t = FAIL)"

definition set_success :: "'a ProgressTracker \<Rightarrow> 'a \<Rightarrow> 'a ProgressTracker" where
  "set_success t score = t\<lparr>best_score := Some score, status := SUCCESS, bad_counter := 0\<rparr>"

definition update :: "('a :: {plus, ord}) ProgressTracker \<Rightarrow> 'a \<Rightarrow> 'a ProgressTracker" where
  "update t score =
     (case best_score t of
        None \<Rightarrow> set_success t score
      | Some b \<Rightarrow>
          if score > b + min_delta t then set_success t score
          else
            (let c = bad_counter t + 1
             in t\<lparr>bad_counter := c,
                  status := (if patience t \<noteq> None \<and> c > the (patience t)
                             then FAIL else NEUTRAL)\<rparr>))"

definition forget_bad_updates :: "'a ProgressTracker \<Rightarrow> 'a ProgressTracker" where
  "forget_bad_updates t = t\<lparr>bad_counter := 0, status := NEUTRAL\<rparr>"

definition reset :: "'a ProgressTracker \<Rightarrow> 'a ProgressTracker" where
  "reset t = (forget_bad_updates t)\<lparr>best_score := None\<rparr>"

subsection \<open>Histories of calls\<close>

text \<open>
  A user drives a tracker by a sequence of method calls. \<open>run\<close> performs them in
  order, as the calls of a training loop would.
\<close>

datatype 'a call = Update 'a | ForgetBadUpdates | Reset

fun apply_call :: "('a :: {plus, ord}) ProgressTracker \<Rightarrow> 'a call \<Rightarrow> 'a ProgressTracker" where
  "apply_call t (Update score) = update t score"
| "apply_call t ForgetBadUpdates = forget_bad_updates t"
| "apply_call t Reset = reset t"

fun run :: "('a :: {plus, ord}) ProgressTracker \<Rightarrow> 'a call list \<Rightarrow> 'a ProgressTracker" where
  "run t [] = t"
| "run t (c # cs) = run (apply_call t c) cs"

text \<open>
  An update improves when it takes one of the two branches of \<open>update\<close> that call
  \<open>_set_success\<close>: there is no best score yet, or the score is greater than the best
  score plus \<open>min_delta\<close>.
\<close>

definition improves :: "('a :: {plus, ord}) ProgressTracker \<Rightarrow> 'a \<Rightarrow> bool" where
  "improves t score =
     (case best_score t of None \<Rightarrow> True | Some b \<Rightarrow> score > b + min_delta t)"

fun non_improving :: "('a :: {plus, ord}) ProgressTracker \<Rightarrow> 'a call \<Rightarrow> bool" where
  "non_improving t (Update score) = (\<not> improves t score)"
| "non_improving t ForgetBadUpdates = False"
| "non_improving t Reset = False"

text \<open>
  \<open>flags t cs\<close> marks, call by call, the updates of the history that did not improve
  on the tracker they met; \<open>consecutive_bad\<close> counts the marked calls at the end of
  the history, back to the last call that is not one: a success, a
  \<open>forget_bad_updates\<close>, a \<open>reset\<close>, or the construction.
\<close>

fun flags :: "('a :: {plus, ord}) ProgressTracker \<Rightarrow> 'a call list \<Rightarrow> bool list" where
  "flags t [] = []"
| "flags t (c # cs) = non_improving t c # flags (apply_call t c) cs"

definition consecutive_bad :: "('a :: {plus, ord}) ProgressTracker \<Rightarrow> 'a call list \<Rightarrow> nat" where
  "consecutive_bad t cs = length (takeWhile (\<lambda>b. b) (rev (flags t cs)))"

text \<open>The invariant of the data model: \<open>fail\<close> only with a patience that is exceeded.\<close>

definition tracker_inv :: "'a ProgressTracker \<Rightarrow> bool" where
  "tracker_inv t =
     (fail t \<longrightarrow> (case patience t of None \<Rightarrow> False | Some p \<Rightarrow> bad_counter t > p))"

section \<open>learn (zero/training.py)\<close>

text \<open>
  \<open>learn\<close> works on objects of the numerical framework: it calls \<open>model.train()\<close>,
  \<open>optimizer.zero_grad()\<close>, \<open>loss.backward()\<close>, \<open>optimizer.step()\<close> and
  \<open>warnings.warn\<close>. What these do to tensors is not part of this repository; what
  \<open>learn\<close> decides is which of them are called, on what, and in which order. The model
  therefore returns the list of these calls, in order, next to the function's result.
  The two callbacks \<open>step\<close> and \<open>loss_fn\<close> are the caller's code and may raise: they
  return \<open>Inl\<close> of the exception, which \<open>learn\<close> does not catch. \<open>warnings.warn\<close>
  records the warning and returns, as it does under the default warning filters.
\<close>

text \<open>
  A Python float as \<open>math.isfinite\<close> sees it: a finite value, one of the two
  infinities, or NaN.
\<close>

datatype 'v pyfloat = Finite 'v | PosInf | NegInf | NaN

fun isfinite :: "'v pyfloat \<Rightarrow> bool" where
  "isfinite (Finite v) = True"
| "isfinite PosInf = False"
| "isfinite NegInf = False"
| "isfinite NaN = False"

datatype category = RuntimeWarning

text \<open>
  The calls on the framework: \<open>Warn c msg v\<close> is \<open>warnings.warn(msg + str(v), c)\<close>,
  the message of the f-string split into its literal part and the formatted value.
\<close>

datatype ('m, 'p, 't, 'v) effect =
    Train 'm
  | Zero_grad 'p
  | Backward 't
  | Step 'p
  | Warn category string "'v pyfloat"

text \<open>\<open>loss_fn(out)\<close> and \<open>loss_fn(*out)\<close> are different calls of the callback.\<close>

datatype 'o args = Packed 'o | Unpacked 'o

definition learn ::
  "'m \<Rightarrow> 'p \<Rightarrow> ('o args \<Rightarrow> 'x + 't) \<Rightarrow> ('b \<Rightarrow> 'x + 'o) \<Rightarrow> ('t \<Rightarrow> 'v pyfloat) \<Rightarrow> 'b \<Rightarrow> bool
     \<Rightarrow> ('m, 'p, 't, 'v) effect list \<times> ('x + 'v pyfloat \<times> 'o)" where
  "learn model optimizer loss_fn step item batch star =
     (let done = [Train model, Zero_grad optimizer] in
      case step batch of
        Inl e \<Rightarrow> (done, Inl e)
      | Inr out \<Rightarrow>
          (case (if star then loss_fn (Unpacked out) else loss_fn (Packed out)) of
             Inl e \<Rightarrow> (done, Inl e)
           | Inr loss \<Rightarrow>
               (let loss_value = item loss in
                if isfinite loss_value
                then (done @ [Backward loss, Step optimizer], Inr (loss_value, out))
                else (done @ [Warn RuntimeWarning ''loss value is not finite: '' loss_value],
                      Inr (loss_value, out)))))"

fun is_backward :: "('m, 'p, 't, 'v) effect \<Rightarrow> bool" where
  "is_backward (Backward t) = True"
| "is_backward _ = False"

fun is_step :: "('m, 'p, 't, 'v) effect \<Rightarrow> bool" where
  "is_step (Step p) = True"
| "is_step _ = False"

fun is_runtime_warning :: "('m, 'p, 't, 'v) effect \<Rightarrow> bool" where
  "is_runtime_warning (Warn RuntimeWarning msg v) = True"
| "is_runtime_warning _ = False"

section \<open>evaluate (zero/training.py)\<close>

text \<open>
  The state \<open>evaluate\<close> touches: the \<open>training\<close> attribute of each module (modules are
  objects, named here by a reference of type \<open>'m\<close>) and the global flag behind
  \<open>torch.is_grad_enabled()\<close>.
\<close>

record 'm torch =
  training :: "'m \<Rightarrow> bool"
  grad_enabled :: bool

datatype 'x exn = AssertionError | Raised 'x

text \<open>\<open>x.eval()\<close> puts the module \<open>x\<close> in evaluation mode.\<close>

definition eval_mode :: "'m torch \<Rightarrow> 'm \<Rightarrow> 'm torch" where
  "eval_mode s x = s\<lparr>training := (training s)(x := False)\<rparr>"

text \<open>
  \<open>torch.no_grad()\<close>: entering remembers the flag and clears it, leaving sets it to
  what was remembered.
\<close>

definition no_grad_enter :: "'m torch \<Rightarrow> bool \<times> 'm torch" where
  "no_grad_enter s = (grad_enabled s, s\<lparr>grad_enabled := False\<rparr>)"

definition no_grad_exit :: "bool \<Rightarrow> 'm torch \<Rightarrow> 'm torch" where
  "no_grad_exit prev s = s\<lparr>grad_enabled := prev\<rparr>"

text \<open>
  \<open>with evaluate(*models): body\<close>. The generator runs up to its \<open>yield\<close> on entry;
  a failed \<open>assert\<close> there leaves the \<open>with\<close> statement before the body starts. An
  exception of the body is thrown into the generator at the \<open>yield\<close>, so the
  \<open>finally\<close> block runs on both ways out, and the exception goes on to the caller.
\<close>

definition evaluate ::
  "'m list \<Rightarrow> ('m torch \<Rightarrow> 'm torch \<times> ('x exn + 'r)) \<Rightarrow> 'm torch \<Rightarrow> 'm torch \<times> ('x exn + 'r)" where
  "evaluate models body s =
     (if models = [] then (s, Inl AssertionError)
      else
        (let s1 = foldl eval_mode s models;
             (prev, s2) = no_grad_enter s1;
             (s3, r) = body s2
         in case r of
              Inl e \<Rightarrow> (no_grad_exit prev s3, Inl e)
            | Inr v \<Rightarrow> (no_grad_exit prev s3, Inr v)))"

section \<open>The optimizer wrapper (zero/optim.py)\<close>

text \<open>
  Modelled from the spec: \<open>zero/optim.py\<close>, the module that defines the optimizer
  wrappers, is not among the sources; only its test is. The spec's words: the wrapper
  "holds a reference to an underlying optimizer; on successful scope exit calls its
  update; on exceptional exit, suppresses the update but propagates the exception".
  \<open>'s\<close> is the state the underlying optimizer works on (the parameters and their
  gradients), \<open>opt_step\<close> its update. \<open>wrapper_exit\<close> is \<open>__exit__\<close>: its second
  component is the value \<open>__exit__\<close> returns, \<open>True\<close> to swallow the exception.
\<close>

definition wrapper_exit :: "('s \<Rightarrow> 's) \<Rightarrow> 'x option \<Rightarrow> 's \<Rightarrow> 's \<times> bool" where
  "wrapper_exit opt_step exc s =
     (case exc of None \<Rightarrow> (opt_step s, False) | Some e \<Rightarrow> (s, False))"

text \<open>
  Modelled from the spec: \<open>with zero_optimizer: body\<close>, the \<open>with\<close> statement over
  the \<open>__exit__\<close> above. The result is \<open>Inl\<close> of the exception that leaves the
  statement, or \<open>Inr ()\<close>.
\<close>

definition with_optimizer ::
  "('s \<Rightarrow> 's) \<Rightarrow> ('s \<Rightarrow> 's \<times> ('x + unit)) \<Rightarrow> 's \<Rightarrow> 's \<times> ('x + unit)" where
  "with_optimizer opt_step body s =
     (let (s1, r) = body s in
      case r of
        Inr u \<Rightarrow> (fst (wrapper_exit opt_step (None :: 'x option) s1), Inr ())
      | Inl e \<Rightarrow>
          (let (s2, swallow) = wrapper_exit opt_step (Some e) s1
           in (s2, if swallow then Inr () else Inl e)))"

section \<open>Properties of ProgressTracker\<close>

lemma update_patience [simp]: "patience (update t score) = patience t"
  by (simp add: update_def set_success_def Let_def split: option.split)

lemma update_min_delta [simp]: "min_delta (update t score) = min_delta t"
  by (simp add: update_def set_success_def Let_def split: option.split)

lemma apply_call_patience [simp]: "patience (apply_call t c) = patience t"
  by (cases c) (simp_all add: forget_bad_updates_def reset_def)

lemma run_patience [simp]: "patience (run t cs) = patience t"
  by (induction cs arbitrary: t) simp_all



lemma consecutive_bad_Nil [simp]: "consecutive_bad t [] = 0"
  by (simp add: consecutive_bad_def)


lemma update_improves:
  "improves t score \<Longrightarrow> update t score = set_success t score"
  by (simp add: update_def improves_def split: option.splits)

lemma update_not_improves:
  "\<not> improves t score \<Longrightarrow>
     update t score =
       t\<lparr>bad_counter := bad_counter t + 1,
         status := (if patience t \<noteq> None \<and> bad_counter t + 1 > the (patience t)
                    then FAIL else NEUTRAL)\<rparr>"
  by (simp add: update_def improves_def Let_def split: option.splits)







lemma init_fields [simp]:
  "patience (init p md) = p" "min_delta (init p md) = md" "best_score (init p md) = None"
  "status (init p md) = NEUTRAL" "bad_counter (init p md) = 0"
  by (simp_all add: init_def)





text \<open>
  C4. Construction establishes, and \<open>update\<close>, \<open>forget_bad_updates\<close> and \<open>reset\<close>
  preserve, the invariant that the tracker is in the 'fail' state only if patience is
  set and \<open>bad_counter\<close> is greater than it.
\<close>

theorem tracker_inv_preserved:
  "tracker_inv (init p md)
   \<and> (tracker_inv t \<longrightarrow> tracker_inv (update t score))
   \<and> (tracker_inv t \<longrightarrow> tracker_inv (forget_bad_updates t))
   \<and> (tracker_inv t \<longrightarrow> tracker_inv (reset t))"
proof -
  have "tracker_inv (init p md)"
    by (simp add: tracker_inv_def fail_def)
  moreover have "tracker_inv (update t score)"
    by (cases "improves t score")
       (auto simp: tracker_inv_def fail_def update_improves update_not_improves set_success_def)
  moreover have "tracker_inv (forget_bad_updates t)"
    by (simp add: tracker_inv_def fail_def forget_bad_updates_def)
  moreover have "tracker_inv (reset t)"
    by (simp add: tracker_inv_def fail_def reset_def forget_bad_updates_def)
  ultimately show ?thesis by blast
qed

theorem tracker_inv_preserved_witness:
  "tracker_inv \<lparr>patience = Some 1, min_delta = (0::int), best_score = Some 5,
                status = FAIL, bad_counter = 2\<rparr>
   \<and> fail (update \<lparr>patience = Some 1, min_delta = (0::int), best_score = Some 5,
                    status = FAIL, bad_counter = 2\<rparr> 4)
   \<and> tracker_inv (update \<lparr>patience = Some 1, min_delta = (0::int), best_score = Some 5,
                           status = FAIL, bad_counter = 2\<rparr> 4)
   \<and> tracker_inv (forget_bad_updates \<lparr>patience = Some 1, min_delta = (0::int),
                    best_score = Some 5, status = FAIL, bad_counter = 2\<rparr>)
   \<and> tracker_inv (reset \<lparr>patience = Some 1, min_delta = (0::int), best_score = Some 5,
                          status = FAIL, bad_counter = 2\<rparr>)"
proof -
  let ?t = "\<lparr>patience = Some 1, min_delta = (0::int), best_score = Some 5,
             status = FAIL, bad_counter = 2\<rparr>"
  have inv: "tracker_inv ?t"
    by (simp add: tracker_inv_def)
  have "fail (update ?t 4)"
    by (simp add: fail_def update_def)
  with inv tracker_inv_preserved [of "Some 1" "0::int" ?t 4] show ?thesis
    by simp
qed

text \<open>
  C5. When a best score \<open>b\<close> is recorded and the new score is greater than
  \<open>b + min_delta\<close> (the test the code makes), \<open>update\<close> sets \<open>bad_counter\<close> to zero,
  puts the tracker in the 'success' state and records the new score as the best score.
\<close>

theorem update_improvement:
  "best_score t = Some b \<Longrightarrow> score > b + min_delta t \<Longrightarrow>
     bad_counter (update t score) = 0 \<and> success (update t score)
     \<and> best_score (update t score) = Some score"
  by (simp add: update_def set_success_def success_def)

theorem update_improvement_witness:
  "best_score \<lparr>patience = Some 2, min_delta = (1::int), best_score = Some 5,
               status = FAIL, bad_counter = 3\<rparr> = Some 5
   \<and> (7::int) > 5 + 1
   \<and> bad_counter (update \<lparr>patience = Some 2, min_delta = (1::int), best_score = Some 5,
                           status = FAIL, bad_counter = 3\<rparr> 7) = 0
   \<and> success (update \<lparr>patience = Some 2, min_delta = (1::int), best_score = Some 5,
                       status = FAIL, bad_counter = 3\<rparr> 7)
   \<and> best_score (update \<lparr>patience = Some 2, min_delta = (1::int), best_score = Some 5,
                          status = FAIL, bad_counter = 3\<rparr> 7) = Some 7"
  using update_improvement
    [of "\<lparr>patience = Some 2, min_delta = (1::int), best_score = Some 5,
          status = FAIL, bad_counter = 3\<rparr>" 5 7]
  by simp

text \<open>
  C6. On a freshly created tracker, and on a freshly reset one, the first call to
  \<open>update\<close> puts the tracker in the 'success' state and records the score as the best
  score, whatever the score is.
\<close>

theorem first_update_success:
  "success (update (init p md) score)
   \<and> best_score (update (init p md) score) = Some score
   \<and> success (update (reset t) score)
   \<and> best_score (update (reset t) score) = Some score"
  by (simp add: update_def set_success_def success_def reset_def)

text \<open>
  C10. \<open>forget_bad_updates\<close> sets \<open>bad_counter\<close> to zero and the status to neutral and
  leaves \<open>best_score\<close>, \<open>patience\<close> and \<open>min_delta\<close> as they were; \<open>reset\<close> does the
  same and sets \<open>best_score\<close> to \<open>None\<close>. The five attributes are the whole state.
\<close>

theorem forget_and_reset_frame:
  "bad_counter (forget_bad_updates t) = 0
   \<and> status (forget_bad_updates t) = NEUTRAL
   \<and> best_score (forget_bad_updates t) = best_score t
   \<and> patience (forget_bad_updates t) = patience t
   \<and> min_delta (forget_bad_updates t) = min_delta t
   \<and> bad_counter (reset t) = 0
   \<and> status (reset t) = NEUTRAL
   \<and> best_score (reset t) = None
   \<and> patience (reset t) = patience t
   \<and> min_delta (reset t) = min_delta t"
  by (simp add: forget_bad_updates_def reset_def)

section \<open>Properties of learn\<close>

text \<open>
  C2. When \<open>step\<close> and \<open>loss_fn\<close> have returned, so that a loss value is computed:
  if the value is not finite, \<open>learn\<close> calls neither \<open>backward\<close> nor the optimizer's
  \<open>step\<close> and issues a \<open>RuntimeWarning\<close>; if it is finite, \<open>learn\<close> calls
  \<open>backward\<close> on the loss and then the optimizer's \<open>step\<close>, and issues no warning.
\<close>

theorem learn_guarded_step:
  assumes "step batch = Inr out"
    and "(if star then loss_fn (Unpacked out) else loss_fn (Packed out)) = Inr loss"
  shows
    "(\<not> isfinite (item loss) \<longrightarrow>
        \<not> list_ex is_backward (fst (learn model optimizer loss_fn step item batch star))
        \<and> \<not> list_ex is_step (fst (learn model optimizer loss_fn step item batch star))
        \<and> list_ex is_runtime_warning (fst (learn model optimizer loss_fn step item batch star))
        \<and> fst (learn model optimizer loss_fn step item batch star) =
            [Train model, Zero_grad optimizer,
             Warn RuntimeWarning ''loss value is not finite: '' (item loss)])
     \<and> (isfinite (item loss) \<longrightarrow>
          fst (learn model optimizer loss_fn step item batch star) =
            [Train model, Zero_grad optimizer, Backward loss, Step optimizer])"
proof (cases "isfinite (item loss)")
  case True
  with assms show ?thesis
    by (cases star) (simp_all add: learn_def Let_def)
next
  case False
  with assms show ?thesis
    by (cases star) (simp_all add: learn_def Let_def)
qed

theorem learn_guarded_step_witness:
  "fst (learn (0::nat) (1::nat) (\<lambda>a. Inr a :: unit + (int pyfloat) args)
         (\<lambda>b. Inr b) (\<lambda>a. case a of Packed v \<Rightarrow> v | Unpacked v \<Rightarrow> v) NaN False)
     = [Train 0, Zero_grad 1, Warn RuntimeWarning ''loss value is not finite: '' NaN]
   \<and> fst (learn (0::nat) (1::nat) (\<lambda>a. Inr a :: unit + (int pyfloat) args)
         (\<lambda>b. Inr b) (\<lambda>a. case a of Packed v \<Rightarrow> v | Unpacked v \<Rightarrow> v) (Finite 3) False)
     = [Train 0, Zero_grad 1, Backward (Packed (Finite 3)), Step 1]"
proof -
  have "list_ex is_runtime_warning
          (fst (learn (0::nat) (1::nat) (\<lambda>a. Inr a :: unit + (int pyfloat) args)
             (\<lambda>b. Inr b) (\<lambda>a. case a of Packed v \<Rightarrow> v | Unpacked v \<Rightarrow> v) NaN False))"
    using learn_guarded_step
      [where step = "\<lambda>b. Inr b :: unit + int pyfloat" and batch = NaN and out = NaN
         and star = False and loss_fn = "\<lambda>a. Inr a :: unit + (int pyfloat) args"
         and loss = "Packed NaN"
         and item = "\<lambda>a. case a of Packed v \<Rightarrow> v | Unpacked v \<Rightarrow> v"
         and model = "0::nat" and optimizer = "1::nat"]
    by simp
  moreover have
    "fst (learn (0::nat) (1::nat) (\<lambda>a. Inr a :: unit + (int pyfloat) args)
        (\<lambda>b. Inr b) (\<lambda>a. case a of Packed v \<Rightarrow> v | Unpacked v \<Rightarrow> v) (Finite 3) False)
       = [Train 0, Zero_grad 1, Backward (Packed (Finite 3)), Step 1]"
    using learn_guarded_step
      [where step = "\<lambda>b. Inr b :: unit + int pyfloat" and batch = "Finite 3"
         and out = "Finite 3" and star = False
         and loss_fn = "\<lambda>a. Inr a :: unit + (int pyfloat) args"
         and loss = "Packed (Finite 3)"
         and item = "\<lambda>a. case a of Packed v \<Rightarrow> v | Unpacked v \<Rightarrow> v"
         and model = "0::nat" and optimizer = "1::nat"]
    by simp
  ultimately show ?thesis
    by (simp add: learn_def)
qed

text \<open>
  C8. When \<open>step\<close> and \<open>loss_fn\<close> have returned, \<open>learn\<close> returns the pair of the
  loss value and \<open>step\<close>'s output, and raises nothing, whether the loss value is
  finite or not.
\<close>

theorem learn_returns_pair:
  assumes "step batch = Inr out"
    and "(if star then loss_fn (Unpacked out) else loss_fn (Packed out)) = Inr loss"
  shows "snd (learn model optimizer loss_fn step item batch star) = Inr (item loss, out)"
  using assms by (cases star; cases "isfinite (item loss)") (simp_all add: learn_def Let_def)

theorem learn_returns_pair_witness:
  "\<not> isfinite (PosInf :: int pyfloat)
   \<and> snd (learn (0::nat) (1::nat) (\<lambda>a. Inr a :: unit + (int pyfloat) args)
         (\<lambda>b. Inr b) (\<lambda>a. case a of Packed v \<Rightarrow> v | Unpacked v \<Rightarrow> v) PosInf True)
     = Inr (PosInf, PosInf)"
  using learn_returns_pair
    [where step = "\<lambda>b. Inr b :: unit + int pyfloat" and batch = PosInf and out = PosInf
       and star = True and loss_fn = "\<lambda>a. Inr a :: unit + (int pyfloat) args"
       and loss = "Unpacked PosInf"
       and item = "\<lambda>a. case a of Packed v \<Rightarrow> v | Unpacked v \<Rightarrow> v"
       and model = "0::nat" and optimizer = "1::nat"]
  by simp

section \<open>Properties of evaluate\<close>

lemma foldl_eval_mode_grad [simp]: "grad_enabled (foldl eval_mode s ms) = grad_enabled s"
  by (induction ms arbitrary: s) (simp_all add: eval_mode_def)

lemma foldl_eval_mode_training:
  "training (foldl eval_mode s ms) x = (if x \<in> set ms then False else training s x)"
  by (induction ms arbitrary: s) (auto simp: eval_mode_def)

text \<open>
  The state in which the body of \<open>with evaluate(*models)\<close> starts: every model in
  evaluation mode, gradients disabled.
\<close>

lemma evaluate_unfold:
  "models \<noteq> [] \<Longrightarrow>
     evaluate models body s =
       (no_grad_exit (grad_enabled s) (fst (body ((foldl eval_mode s models)\<lparr>grad_enabled := False\<rparr>))),
        snd (body ((foldl eval_mode s models)\<lparr>grad_enabled := False\<rparr>)))"
  by (simp add: evaluate_def no_grad_enter_def Let_def split: prod.split sum.split)

text \<open>
  C7 (as amended). On every way out of \<open>with evaluate(*models)\<close>, the failed assertion
  on entry, the normal end of the body and an exception of the body, the global
  gradient-enabled flag is what it was before entry. The models' training mode is not
  restored: once entered, the statement leaves every module as the body left it, the
  body having started with every model in evaluation mode, and the body's result or
  exception goes to the caller as it is.
\<close>

theorem evaluate_restores_grad:
  "grad_enabled (fst (evaluate models body s)) = grad_enabled s
   \<and> (models \<noteq> [] \<longrightarrow>
        training (fst (evaluate models body s)) =
          training (fst (body ((foldl eval_mode s models)\<lparr>grad_enabled := False\<rparr>)))
        \<and> snd (evaluate models body s) =
            snd (body ((foldl eval_mode s models)\<lparr>grad_enabled := False\<rparr>))
        \<and> (\<forall>x \<in> set models.
              \<not> training ((foldl eval_mode s models)\<lparr>grad_enabled := False\<rparr>) x))"
proof (cases "models = []")
  case True
  then show ?thesis by (simp add: evaluate_def)
next
  case False
  then show ?thesis
    by (simp add: evaluate_unfold no_grad_exit_def foldl_eval_mode_training)
qed

theorem evaluate_restores_grad_witness:
  "[0::nat] \<noteq> []
   \<and> grad_enabled (fst (evaluate [0::nat]
        (\<lambda>s. (s\<lparr>grad_enabled := True\<rparr>, Inl (Raised ()) :: unit exn + unit))
        \<lparr>training = \<lambda>x. True, grad_enabled = False\<rparr>)) = False
   \<and> training (fst (evaluate [0::nat]
        (\<lambda>s. (s\<lparr>grad_enabled := True\<rparr>, Inl (Raised ()) :: unit exn + unit))
        \<lparr>training = \<lambda>x. True, grad_enabled = False\<rparr>)) 0 = False
   \<and> snd (evaluate [0::nat]
        (\<lambda>s. (s\<lparr>grad_enabled := True\<rparr>, Inl (Raised ()) :: unit exn + unit))
        \<lparr>training = \<lambda>x. True, grad_enabled = False\<rparr>) = Inl (Raised ())"
  using evaluate_restores_grad
    [of "[0::nat]" "\<lambda>s. (s\<lparr>grad_enabled := True\<rparr>, Inl (Raised ()) :: unit exn + unit)"
        "\<lparr>training = \<lambda>x. True, grad_enabled = False\<rparr>"]
  by (simp add: eval_mode_def)

text \<open>
  The claim as first stated fails for the training mode: a model that was in training
  mode before the statement is in evaluation mode after it, though the body changes
  nothing.
\<close>

theorem evaluate_restores_counterexample:
  "\<not> (training (fst (evaluate [0::nat] (\<lambda>s. (s, Inr () :: unit exn + unit))
                       \<lparr>training = \<lambda>x. True, grad_enabled = True\<rparr>)) 0
        = training \<lparr>training = \<lambda>x. True, grad_enabled = True\<rparr> (0::nat))"
  by (simp add: evaluate_def eval_mode_def no_grad_enter_def no_grad_exit_def)

text \<open>
  C9. \<open>evaluate\<close> with no models fails its assertion on entry: the statement ends with
  \<open>AssertionError\<close>, whatever the body is, and the state is untouched. With at least
  one model the assertion passes (see \<open>evaluate_unfold\<close>).
\<close>

theorem evaluate_no_models:
  "evaluate [] body s = (s, Inl AssertionError)"
  by (simp add: evaluate_def)

section \<open>Properties of the optimizer wrapper\<close>

text \<open>
  C3. If the body of \<open>with zero_optimizer\<close> raises, the underlying optimizer's update
  is not applied (the state is the one the body left) and the same exception leaves
  the statement; if the body ends normally, the update is applied on exit.
\<close>

theorem with_optimizer_scope:
  "(body s = (s1, Inl e) \<longrightarrow> with_optimizer opt_step body s = (s1, Inl e))
   \<and> (body s = (s1, Inr u) \<longrightarrow> with_optimizer opt_step body s = (opt_step s1, Inr ()))"
  by (simp add: with_optimizer_def wrapper_exit_def)

theorem with_optimizer_scope_witness:
  "with_optimizer (\<lambda>w. w - 1) (\<lambda>w. (w, Inl ''ZeroDivisionError'')) (10::int)
     = (10, Inl ''ZeroDivisionError'')
   \<and> with_optimizer (\<lambda>w. w - 1) (\<lambda>w. (w, Inr () :: string + unit)) (10::int) = (9, Inr ())"
proof -
  have raised: "(\<lambda>w::int. (w, Inl ''ZeroDivisionError'' :: string + unit)) 10
                  = (10, Inl ''ZeroDivisionError'')"
    by simp
  have normal: "(\<lambda>w::int. (w, Inr () :: string + unit)) 10 = (10, Inr ())"
    by simp
  show ?thesis
    using with_optimizer_scope
        [of "\<lambda>w::int. (w, Inl ''ZeroDivisionError'' :: string + unit)" 10 10
            "''ZeroDivisionError''" "\<lambda>w. w - 1"]
      with_optimizer_scope
        [of "\<lambda>w::int. (w, Inr () :: string + unit)" 10 10 "''ZeroDivisionError''"
            "\<lambda>w. w - 1" "()"]
    by simp
qed

end
